theory Spec2Isabelle
  imports Complex_Main
begin

section \<open>Outfit Vault: values of the host language\<close>

text \<open>
  The program is the third revision of \<^verbatim>\<open>app.js\<close> (the one with tags, wear tracking,
  export/import, crop, undo and multi-select). It is dynamically typed, so the values it
  handles are modelled first.

  A number is an IEEE double: not-a-number, one of the two infinities, or a finite value.
  A finite double is a rational, so \<open>Fin\<close> carries its exact value; the two zeros are
  identified (no function below tells them apart).
\<close>

datatype jsnum = NaN | PInf | NInf | Fin real

text \<open>
  A value read from a parsed JSON document (\<^verbatim>\<open>JSON.parse\<close>): the six JSON kinds, and
  \<open>JUndefined\<close> for a property that is absent. An object is the list of its own
  properties.
\<close>

datatype jsval =
    JUndefined
  | JNull
  | JBool bool
  | JNum jsnum
  | JStr string
  | JArr "jsval list"
  | JObj "(string \<times> jsval) list"

text \<open>
  Three functions of the language that are too large to write out are taken from the
  host: the parsing of a string as a number (\<^verbatim>\<open>StringToNumber\<close>), the printing of a number
  (\<^verbatim>\<open>Number::toString\<close>) and the collation of \<^verbatim>\<open>localeCompare\<close>. Every theorem
  below holds for every host.
\<close>

record host =
  StringToNumber :: "string \<Rightarrow> jsnum"
  NumberToString :: "jsnum \<Rightarrow> string"
  localeCompare :: "string \<Rightarrow> string \<Rightarrow> jsnum"

text \<open>\<^verbatim>\<open>ToBoolean\<close>: what \<^verbatim>\<open>!v\<close>, \<^verbatim>\<open>v || d\<close> and \<^verbatim>\<open>v ? a : b\<close> test.\<close>

fun num_truthy :: "jsnum \<Rightarrow> bool" where
  "num_truthy NaN = False"
| "num_truthy (Fin x) = (x \<noteq> 0)"
| "num_truthy _ = True"

fun truthy :: "jsval \<Rightarrow> bool" where
  "truthy JUndefined = False"
| "truthy JNull = False"
| "truthy (JBool b) = b"
| "truthy (JNum n) = num_truthy n"
| "truthy (JStr s) = (s \<noteq> [])"
| "truthy (JArr _) = True"
| "truthy (JObj _) = True"

text \<open>\<^verbatim>\<open>v || d\<close>\<close>

definition js_or :: "jsval \<Rightarrow> jsval \<Rightarrow> jsval" where
  "js_or v d = (if truthy v then v else d)"

text \<open>\<^verbatim>\<open>xs.join(sep)\<close> on strings.\<close>

fun join :: "string \<Rightarrow> string list \<Rightarrow> string" where
  "join sep [] = []"
| "join sep [x] = x"
| "join sep (x # y # ys) = x @ sep @ join sep (y # ys)"

text \<open>
  \<^verbatim>\<open>ToString\<close>. An array prints as its elements joined by commas, with \<^verbatim>\<open>null\<close> and
  \<^verbatim>\<open>undefined\<close> elements printed as the empty string.
\<close>

fun ToString :: "host \<Rightarrow> jsval \<Rightarrow> string" where
  "ToString h JUndefined = ''undefined''"
| "ToString h JNull = ''null''"
| "ToString h (JBool b) = (if b then ''true'' else ''false'')"
| "ToString h (JNum n) = NumberToString h n"
| "ToString h (JStr s) = s"
| "ToString h (JArr xs) =
     join '','' (map (\<lambda>x. if x = JUndefined \<or> x = JNull then [] else ToString h x) xs)"
| "ToString h (JObj _) = ''[object Object]''"

text \<open>\<^verbatim>\<open>Number(v)\<close>: an array or object is first printed, then parsed.\<close>

fun Number :: "host \<Rightarrow> jsval \<Rightarrow> jsnum" where
  "Number h JUndefined = NaN"
| "Number h JNull = Fin 0"
| "Number h (JBool b) = Fin (if b then 1 else 0)"
| "Number h (JNum n) = n"
| "Number h (JStr s) = StringToNumber h s"
| "Number h v = StringToNumber h (ToString h v)"

fun isFinite :: "jsnum \<Rightarrow> bool" where
  "isFinite (Fin _) = True"
| "isFinite _ = False"

subsection \<open>Arithmetic\<close>

text \<open>
  The operations on numbers that the program uses, with the special values written out.
  On finite values they are computed exactly: the rounding of a double operation to the
  nearest double is left out of the model.
\<close>

fun js_lt :: "jsnum \<Rightarrow> jsnum \<Rightarrow> bool" where
  "js_lt NaN _ = False"
| "js_lt _ NaN = False"
| "js_lt (Fin a) (Fin b) = (a < b)"
| "js_lt NInf NInf = False"
| "js_lt NInf _ = True"
| "js_lt _ NInf = False"
| "js_lt PInf _ = False"
| "js_lt _ PInf = True"

text \<open>\<^verbatim>\<open>a > b\<close> and \<^verbatim>\<open>a >= b\<close>; each is false when an operand is not a number.\<close>

definition js_gt :: "jsnum \<Rightarrow> jsnum \<Rightarrow> bool" where
  "js_gt a b = js_lt b a"

definition js_ge :: "jsnum \<Rightarrow> jsnum \<Rightarrow> bool" where
  "js_ge a b = (a \<noteq> NaN \<and> b \<noteq> NaN \<and> \<not> js_lt a b)"

fun js_sub :: "jsnum \<Rightarrow> jsnum \<Rightarrow> jsnum" where
  "js_sub (Fin a) (Fin b) = Fin (a - b)"
| "js_sub NaN _ = NaN"
| "js_sub _ NaN = NaN"
| "js_sub PInf PInf = NaN"
| "js_sub NInf NInf = NaN"
| "js_sub PInf _ = PInf"
| "js_sub NInf _ = NInf"
| "js_sub (Fin a) PInf = NInf"
| "js_sub (Fin a) NInf = PInf"

text \<open>The sign of a product or quotient with an infinite operand.\<close>

definition signed_inf :: "bool \<Rightarrow> jsnum" where
  "signed_inf positive = (if positive then PInf else NInf)"

fun js_mul :: "jsnum \<Rightarrow> jsnum \<Rightarrow> jsnum" where
  "js_mul (Fin a) (Fin b) = Fin (a * b)"
| "js_mul NaN _ = NaN"
| "js_mul _ NaN = NaN"
| "js_mul (Fin a) PInf = (if a = 0 then NaN else signed_inf (0 < a))"
| "js_mul (Fin a) NInf = (if a = 0 then NaN else signed_inf (a < 0))"
| "js_mul PInf (Fin b) = (if b = 0 then NaN else signed_inf (0 < b))"
| "js_mul NInf (Fin b) = (if b = 0 then NaN else signed_inf (b < 0))"
| "js_mul PInf PInf = PInf"
| "js_mul NInf NInf = PInf"
| "js_mul PInf NInf = NInf"
| "js_mul NInf PInf = NInf"


definition Math_min :: "jsnum \<Rightarrow> jsnum \<Rightarrow> jsnum" where
  "Math_min a b = (if a = NaN \<or> b = NaN then NaN else if js_lt b a then b else a)"

definition Math_max :: "jsnum \<Rightarrow> jsnum \<Rightarrow> jsnum" where
  "Math_max a b = (if a = NaN \<or> b = NaN then NaN else if js_lt a b then b else a)"

text \<open>
  \<^verbatim>\<open>Math.round\<close> is exact: the integer nearest to the argument, the larger one at a
  tie. \<^verbatim>\<open>Math.floor\<close> is the largest integer not above the argument. Both leave the
  special values as they are.
\<close>

fun Math_round :: "jsnum \<Rightarrow> jsnum" where
  "Math_round (Fin x) = Fin (of_int \<lfloor>x + 1 / 2\<rfloor>)"
| "Math_round v = v"


subsection \<open>Strings\<close>

text \<open>
  A string is a list of 8-bit characters. \<^verbatim>\<open>trim\<close> removes the white space and line
  terminators of the language from both ends (those below 256: tab, line feed, vertical
  tab, form feed, carriage return, space, no-break space); \<^verbatim>\<open>toLowerCase\<close> maps the
  letters A to Z to a to z.
\<close>

definition isSpace :: "char \<Rightarrow> bool" where
  "isSpace c = (of_char c \<in> {9, 10, 11, 12, 13, 32, 160 :: nat})"

definition trim :: "string \<Rightarrow> string" where
  "trim s = rev (dropWhile isSpace (rev (dropWhile isSpace s)))"

definition lowerChar :: "char \<Rightarrow> char" where
  "lowerChar c =
     (if 65 \<le> (of_char c :: nat) \<and> (of_char c :: nat) \<le> 90
      then char_of (of_char c + 32 :: nat) else c)"

definition toLowerCase :: "string \<Rightarrow> string" where
  "toLowerCase s = map lowerChar s"

text \<open>\<^verbatim>\<open>s.split(",")\<close>: the pieces between the separators; never the empty list.\<close>

fun split :: "char \<Rightarrow> string \<Rightarrow> string list" where
  "split c [] = [[]]"
| "split c (x # xs) =
     (if x = c then [] # split c xs
      else (case split c xs of w # ws \<Rightarrow> (x # w) # ws | [] \<Rightarrow> [[x]]))"

text \<open>\<^verbatim>\<open>s.includes(q)\<close>: \<open>q\<close> occurs in \<open>s\<close> as a contiguous piece.\<close>

fun str_includes :: "string \<Rightarrow> string \<Rightarrow> bool" where
  "str_includes [] q = (q = [])"
| "str_includes (c # cs) q = (take (length q) (c # cs) = q \<or> str_includes cs q)"

text \<open>
  \<^verbatim>\<open>Array.from(new Set(xs))\<close>: a set keeps its elements in the order of their first
  insertion.
\<close>

definition set_add :: "'a list \<Rightarrow> 'a \<Rightarrow> 'a list" where
  "set_add seen x = (if x \<in> set seen then seen else seen @ [x])"

definition from_Set :: "'a list \<Rightarrow> 'a list" where
  "from_Set xs = foldl set_add [] xs"

subsection \<open>Errors\<close>

text \<open>
  What the program can throw: the type error of calling a method that a value does not
  have (\<^verbatim>\<open>(5).trim()\<close>), the syntax error of \<^verbatim>\<open>JSON.parse\<close>, the program's own
  \<^verbatim>\<open>Error("Formato backup non valido")\<close>, the store's refusal of a value that is not a
  key or of a key that is taken, and the failures of the platform (reading a file,
  decoding an image, fetching a data URL).
\<close>

datatype error =
    TypeError
  | SyntaxError
  | FormatError
  | DataError
  | ConstraintError
  | ReadError
  | DecodeError
  | FetchError


section \<open>Helpers of the program\<close>

text \<open>
  \<^verbatim>\<open>
  function clampRating(n) {
    const x = Number(n);
    if (!Number.isFinite(x)) return 0;
    return Math.min(5, Math.max(0, Math.round(x)));
  }
  \<close>
\<close>

definition clampRating :: "host \<Rightarrow> jsval \<Rightarrow> jsnum" where
  "clampRating h n =
     (let x = Number h n in
      if \<not> isFinite x then Fin 0
      else Math_min (Fin 5) (Math_max (Fin 0) (Math_round x)))"

text \<open>An integer between 0 and 5, as a number of the language.\<close>

definition rating_values :: "jsnum set" where
  "rating_values = {Fin 0, Fin 1, Fin 2, Fin 3, Fin 4, Fin 5}"

text \<open>
  \<^verbatim>\<open>
  function safeName(name) {
    const s = (name || "").trim();
    return s ? s : "Outfit senza nome";
  }
  \<close>
  A value that is neither falsy nor a string has no \<^verbatim>\<open>trim\<close> method.
\<close>

definition safeNameText :: "string \<Rightarrow> string" where
  "safeNameText s = (if trim s = [] then ''Outfit senza nome'' else trim s)"

definition safeName :: "jsval \<Rightarrow> error + string" where
  "safeName name =
     (case js_or name (JStr []) of
        JStr s \<Rightarrow> Inr (safeNameText s)
      | _ \<Rightarrow> Inl TypeError)"

text \<open>
  \<^verbatim>\<open>
  function parseTags(raw) {
    const s = (raw || "")
      .split(",")
      .map(x => x.trim().toLowerCase())
      .filter(Boolean);
    return Array.from(new Set(s)).slice(0, 20);
  }
  \<close>
  A value that is neither falsy nor a string has no \<^verbatim>\<open>split\<close> method.
\<close>

definition parseTagsText :: "string \<Rightarrow> string list" where
  "parseTagsText s =
     take 20 (from_Set (filter (\<lambda>x. x \<noteq> [])
       (map (\<lambda>x. toLowerCase (trim x)) (split (CHR '','') s))))"

definition parseTags :: "jsval \<Rightarrow> error + string list" where
  "parseTags raw =
     (case js_or raw (JStr []) of
        JStr s \<Rightarrow> Inr (parseTagsText s)
      | _ \<Rightarrow> Inl TypeError)"

text \<open>The invariant of a record's tags.\<close>

definition tags_ok :: "string list \<Rightarrow> bool" where
  "tags_ok ts =
     (distinct ts \<and> length ts \<le> 20 \<and>
      list_all (\<lambda>t. t \<noteq> [] \<and> toLowerCase t = t) ts)"

section \<open>Image normalizer\<close>









text \<open>
  \<^verbatim>\<open>
  async function fileToSafeJpegBlob(file, maxSide = 1600, quality = 0.9) {
    let bitmap = null;
    if ("createImageBitmap" in window) {
      try { bitmap = await createImageBitmap(file); } catch { bitmap = null; }
    }
    if (!bitmap) {
      const dataUrl = await new Promise((resolve, reject) => {
        const r = new FileReader();
        r.onload = () => resolve(r.result);
        r.onerror = () => reject(r.error);
        r.readAsDataURL(file);
      });
      bitmap = await new Promise((resolve, reject) => {
        const img = new Image();
        img.onload = () => resolve(img);
        img.onerror = reject;
        img.src = dataUrl;
      });
    }
    ... canvas of cw by ch, ctx.drawImage(bitmap, 0, 0, cw, ch) ...
    const blob = await new Promise((resolve) => {
      canvas.toBlob((b) => resolve(b), "image/jpeg", quality);
    });
    return blob || file;
  }
  \<close>
  The two promises of the fallback path are awaited outside any \<^verbatim>\<open>try\<close>: a rejection
  of either one is a rejection of the function.
\<close>







section \<open>Record store\<close>

text \<open>
  An image payload: its media type and its bytes. A record has the fields the program
  writes (the comment above \<^verbatim>\<open>openDB\<close>:
  \<^verbatim>\<open>{ id, name, rating, favorite, createdAt, imageBlob, tags:[], notes:"", wearCount, lastWornAt }\<close>).
  Every write path of the program stores a string as name and notes, a number as rating,
  creation time, wear count and last-worn time, a boolean as favorite and a list of
  strings as tags, so these fields are typed. The fields \<^verbatim>\<open>id\<close> and \<^verbatim>\<open>notes\<close> are called \<open>oid\<close>
  and \<open>onotes\<close> here. The id is whatever value the writer chose:
  \<^verbatim>\<open>uid()\<close> makes a string, the import keeps the id of the document. A field that a
  record of an older revision lacks reads as the default that every reader substitutes.
\<close>

datatype blob = Blob (btype: string) (bytes: "nat list")

record outfit =
  oid :: jsval
  name :: string
  rating :: jsnum
  favorite :: bool
  createdAt :: jsnum
  imageBlob :: blob
  tags :: "string list"
  onotes :: string
  wearCount :: jsnum
  lastWornAt :: jsnum

text \<open>
  The object store \<^verbatim>\<open>outfits\<close> has the key path \<^verbatim>\<open>id\<close>. A key is a string, a number
  other than not-a-number, or an array of keys; \<^verbatim>\<open>put\<close>, \<^verbatim>\<open>add\<close>, \<^verbatim>\<open>get\<close> and
  \<^verbatim>\<open>delete\<close> throw a \<^verbatim>\<open>DataError\<close> on anything else. Keys are compared by value. The
  store is the list of its records; the store is assumed available (the database opens,
  a transaction commits).
\<close>

fun validKey :: "jsval \<Rightarrow> bool" where
  "validKey (JStr _) = True"
| "validKey (JNum n) = (n \<noteq> NaN)"
| "validKey (JArr xs) = list_all validKey xs"
| "validKey _ = False"

type_synonym store = "outfit list"

definition has_key :: "store \<Rightarrow> jsval \<Rightarrow> bool" where
  "has_key d k = (k \<in> set (map oid d))"

text \<open>\<^verbatim>\<open>store.add(outfit)\<close>\<close>

definition dbAddOutfit :: "store \<Rightarrow> outfit \<Rightarrow> error + store" where
  "dbAddOutfit d outfit =
     (if \<not> validKey (oid outfit) then Inl DataError
      else if has_key d (oid outfit) then Inl ConstraintError
      else Inr (d @ [outfit]))"

text \<open>\<^verbatim>\<open>store.put(outfit)\<close>: insert, or replace the record of that key.\<close>

definition dbPutOutfit :: "store \<Rightarrow> outfit \<Rightarrow> error + store" where
  "dbPutOutfit d outfit =
     (if \<not> validKey (oid outfit) then Inl DataError
      else if has_key d (oid outfit)
        then Inr (map (\<lambda>r. if oid r = oid outfit then outfit else r) d)
      else Inr (d @ [outfit]))"

text \<open>\<^verbatim>\<open>store.delete(id)\<close>\<close>

definition dbDeleteOutfit :: "store \<Rightarrow> jsval \<Rightarrow> error + store" where
  "dbDeleteOutfit d k =
     (if \<not> validKey k then Inl DataError
      else Inr (filter (\<lambda>r. oid r \<noteq> k) d))"

text \<open>\<^verbatim>\<open>store.getAll()\<close>, \<^verbatim>\<open>req.result || []\<close>\<close>

definition dbGetAllOutfits :: "store \<Rightarrow> outfit list" where
  "dbGetAllOutfits d = d"

text \<open>\<^verbatim>\<open>store.get(id)\<close>, \<^verbatim>\<open>req.result || null\<close>\<close>

definition dbGetOutfit :: "store \<Rightarrow> jsval \<Rightarrow> error + outfit option" where
  "dbGetOutfit d k =
     (if \<not> validKey k then Inl DataError
      else Inr (find (\<lambda>r. oid r = k) d))"

text \<open>What the store guarantees: the keys are valid and no two records share one.\<close>

definition store_ok :: "store \<Rightarrow> bool" where
  "store_ok d = (distinct (map oid d) \<and> list_all (\<lambda>r. validKey (oid r)) d)"

section \<open>Application state\<close>

text \<open>
  The module-level \<^verbatim>\<open>state\<close> object, together with the database it talks to. The
  selection is a \<^verbatim>\<open>Set\<close> of ids, held as the list of its elements; \<open>undoTimer\<close> says
  whether the five-second timer of the last deletion is pending. Left out: the settings,
  the object URLs (\<^verbatim>\<open>selectedURL\<close>, \<^verbatim>\<open>urlCache\<close>), the toast and the page.
\<close>

record quick_filter =
  fav :: bool
  minRating :: jsnum
  staleDays :: jsnum
  tag :: string

record app_state =
  db :: store
  outfits :: "outfit list"
  filtered :: "outfit list"
  search :: string
  sort_mode :: string
  filter_spec :: quick_filter
  selectedId :: "jsval option"
  selectMode :: bool
  selectedSet :: "jsval list"
  lastDeleted :: "outfit option"
  undoTimer :: bool

text \<open>
  A function of the program that can throw returns the error, if any, and the state it
  leaves behind.
\<close>

type_synonym outcome = "error option \<times> app_state"

text \<open>
  \<^verbatim>\<open>Set.prototype.has\<close> and \<^verbatim>\<open>Array.prototype.includes\<close> compare strings, numbers and
  booleans by value and arrays and objects by identity. An array read from a parsed
  document or from the store is a new object each time, so it is never found among ids
  held elsewhere.
\<close>

fun primitive :: "jsval \<Rightarrow> bool" where
  "primitive (JArr _) = False"
| "primitive (JObj _) = False"
| "primitive _ = True"

definition has_id :: "jsval list \<Rightarrow> jsval \<Rightarrow> bool" where
  "has_id ids v = (primitive v \<and> v \<in> set ids)"

subsection \<open>Filters and sorting\<close>

text \<open>\<^verbatim>\<open>x || 0\<close> on a number.\<close>

definition num_or0 :: "jsnum \<Rightarrow> jsnum" where
  "num_or0 x = (if num_truthy x then x else Fin 0)"

text \<open>
  \<^verbatim>\<open>Array.prototype.sort\<close> with a comparison function is stable; a comparison result that
  is not a number counts as zero. With a comparison that orders the elements
  consistently the result is the one of any stable sort, here by insertion.
\<close>

fun insort_by :: "('a \<Rightarrow> 'a \<Rightarrow> jsnum) \<Rightarrow> 'a \<Rightarrow> 'a list \<Rightarrow> 'a list" where
  "insort_by cmp x [] = [x]"
| "insort_by cmp x (y # ys) =
     (if js_gt (cmp x y) (Fin 0) then y # insort_by cmp x ys else x # y # ys)"

definition Array_sort :: "('a \<Rightarrow> 'a \<Rightarrow> jsnum) \<Rightarrow> 'a list \<Rightarrow> 'a list" where
  "Array_sort cmp xs = foldr (insort_by cmp) xs []"

text \<open>
  The comparison function of \<^verbatim>\<open>applyFiltersAndSort\<close>:
  \<^verbatim>\<open>
  arr.sort((a, b) => {
    const af = a.favorite ? 1 : 0;
    const bf = b.favorite ? 1 : 0;
    if (s === "fav_first") {
      if (bf !== af) return bf - af;
      return (b.createdAt || 0) - (a.createdAt || 0);
    }
    if (s === "date_desc") return (b.createdAt || 0) - (a.createdAt || 0);
    if (s === "date_asc") return (a.createdAt || 0) - (b.createdAt || 0);
    if (s === "rating_desc") return (b.rating || 0) - (a.rating || 0);
    if (s === "rating_asc") return (a.rating || 0) - (b.rating || 0);
    if (s === "name_asc") return (a.name || "").localeCompare(b.name || "");
    if (s === "name_desc") return (b.name || "").localeCompare(a.name || "");
    if (s === "wear_desc") return (b.wearCount || 0) - (a.wearCount || 0);
    if (s === "wear_asc") return (a.wearCount || 0) - (b.wearCount || 0);
    if (s === "lastworn_asc") return (a.lastWornAt || 0) - (b.lastWornAt || 0);
    if (s === "lastworn_desc") return (b.lastWornAt || 0) - (a.lastWornAt || 0);
    return 0;
  });
  \<close>
\<close>

definition compareOutfits :: "host \<Rightarrow> string \<Rightarrow> outfit \<Rightarrow> outfit \<Rightarrow> jsnum" where
  "compareOutfits h s a b =
     (let af = (if favorite a then 1 else 0 :: real);
          bf = (if favorite b then 1 else 0 :: real)
      in if s = ''fav_first'' then
           (if bf \<noteq> af then Fin (bf - af)
            else js_sub (num_or0 (createdAt b)) (num_or0 (createdAt a)))
         else if s = ''date_desc'' then js_sub (num_or0 (createdAt b)) (num_or0 (createdAt a))
         else if s = ''date_asc'' then js_sub (num_or0 (createdAt a)) (num_or0 (createdAt b))
         else if s = ''rating_desc'' then js_sub (num_or0 (rating b)) (num_or0 (rating a))
         else if s = ''rating_asc'' then js_sub (num_or0 (rating a)) (num_or0 (rating b))
         else if s = ''name_asc'' then localeCompare h (name a) (name b)
         else if s = ''name_desc'' then localeCompare h (name b) (name a)
         else if s = ''wear_desc'' then js_sub (num_or0 (wearCount b)) (num_or0 (wearCount a))
         else if s = ''wear_asc'' then js_sub (num_or0 (wearCount a)) (num_or0 (wearCount b))
         else if s = ''lastworn_asc'' then
           js_sub (num_or0 (lastWornAt a)) (num_or0 (lastWornAt b))
         else if s = ''lastworn_desc'' then
           js_sub (num_or0 (lastWornAt b)) (num_or0 (lastWornAt a))
         else Fin 0)"

text \<open>
  \<^verbatim>\<open>
  function applyFiltersAndSort() {
    const q = state.search.trim().toLowerCase();
    let arr = [...state.outfits];
    if (state.filter.fav) arr = arr.filter(o => !!o.favorite);
    if (state.filter.minRating > 0)
      arr = arr.filter(o => (o.rating || 0) >= state.filter.minRating);
    if (state.filter.staleDays > 0) {
      const limit = Date.now() - state.filter.staleDays * 24 * 60 * 60 * 1000;
      arr = arr.filter(o => {
        const lw = o.lastWornAt || 0;
        return lw === 0 || lw < limit;
      });
    }
    if (state.filter.tag) arr = arr.filter(o => (o.tags || []).includes(state.filter.tag));
    if (q) {
      arr = arr.filter(o => (o.name || "").toLowerCase().includes(q)
                         || (o.notes || "").toLowerCase().includes(q));
    }
    const s = state.sort;
    if (s === "fav_only") arr = arr.filter(o => !!o.favorite);
    arr.sort(...);
    state.filtered = arr;
  }
  \<close>
  The argument \<open>now\<close> is what \<^verbatim>\<open>Date.now()\<close> returns when the function runs.
\<close>

definition staleLimit :: "jsnum \<Rightarrow> jsnum \<Rightarrow> jsnum" where
  "staleLimit now days =
     js_sub now (js_mul (js_mul (js_mul (js_mul days (Fin 24)) (Fin 60)) (Fin 60)) (Fin 1000))"

definition applyFiltersAndSort :: "host \<Rightarrow> jsnum \<Rightarrow> app_state \<Rightarrow> app_state" where
  "applyFiltersAndSort h now st =
     (let q = toLowerCase (trim (search st));
          f = filter_spec st;
          arr = outfits st;
          arr = (if fav f then filter favorite arr else arr);
          arr = (if js_gt (minRating f) (Fin 0)
                 then filter (\<lambda>r. js_ge (num_or0 (rating r)) (minRating f)) arr else arr);
          arr = (if js_gt (staleDays f) (Fin 0)
                 then filter (\<lambda>r. num_or0 (lastWornAt r) = Fin 0 \<or>
                                  js_lt (num_or0 (lastWornAt r)) (staleLimit now (staleDays f))) arr
                 else arr);
          arr = (if tag f \<noteq> [] then filter (\<lambda>r. tag f \<in> set (tags r)) arr else arr);
          arr = (if q \<noteq> []
                 then filter (\<lambda>r. str_includes (toLowerCase (name r)) q \<or>
                                  str_includes (toLowerCase (onotes r)) q) arr
                 else arr);
          s = sort_mode st;
          arr = (if s = ''fav_only'' then filter favorite arr else arr)
      in st\<lparr>filtered := Array_sort (compareOutfits h s) arr\<rparr>)"

text \<open>
  \<^verbatim>\<open>renderGrid\<close> recomputes the visible list and rebuilds the page from it;
  \<^verbatim>\<open>refresh\<close> reloads the snapshot from the store first:
  \<^verbatim>\<open>
  async function refresh() {
    state.outfits = await dbGetAllOutfits();
    ...
    renderGrid();
  }
  \<close>
\<close>

definition renderGrid :: "host \<Rightarrow> jsnum \<Rightarrow> app_state \<Rightarrow> app_state" where
  "renderGrid h now st = applyFiltersAndSort h now st"

definition refresh :: "host \<Rightarrow> jsnum \<Rightarrow> app_state \<Rightarrow> app_state" where
  "refresh h now st = renderGrid h now (st\<lparr>outfits := dbGetAllOutfits (db st)\<rparr>)"


subsection \<open>Bulk favorite\<close>

text \<open>
  \<^verbatim>\<open>
  async function bulkToggleFavorite() {
    const ids = Array.from(state.selectedSet);
    if (!ids.length) return;
    const selectedOutfits = state.outfits.filter(o => ids.includes(o.id));
    const allFav = selectedOutfits.length > 0 && selectedOutfits.every(o => !!o.favorite);
    const targetFav = !allFav;
    for (const o of selectedOutfits) {
      await dbPutOutfit({ ...o, favorite: targetFav });
    }
    await refresh();
    ...
  }
  \<close>
\<close>

fun putAll :: "store \<Rightarrow> outfit list \<Rightarrow> error option \<times> store" where
  "putAll d [] = (None, d)"
| "putAll d (x # xs) =
     (case dbPutOutfit d x of
        Inl e \<Rightarrow> (Some e, d)
      | Inr d' \<Rightarrow> putAll d' xs)"

definition selectedOutfits :: "app_state \<Rightarrow> outfit list" where
  "selectedOutfits st = filter (\<lambda>r. has_id (selectedSet st) (oid r)) (outfits st)"

definition targetFav :: "app_state \<Rightarrow> bool" where
  "targetFav st =
     (\<not> (length (selectedOutfits st) > 0 \<and> list_all favorite (selectedOutfits st)))"

definition bulkToggleFavorite :: "host \<Rightarrow> jsnum \<Rightarrow> app_state \<Rightarrow> outcome" where
  "bulkToggleFavorite h now st =
     (if selectedSet st = [] then (None, st)
      else
        (case putAll (db st)
                (map (\<lambda>r. r\<lparr>favorite := targetFav st\<rparr>) (selectedOutfits st)) of
           (Some e, d) \<Rightarrow> (Some e, st\<lparr>db := d\<rparr>)
         | (None, d) \<Rightarrow> (None, refresh h now (st\<lparr>db := d\<rparr>))))"

subsection \<open>Delete with undo\<close>

text \<open>
  \<^verbatim>\<open>
  async function deleteDetailWithUndo() {
    if (!state.selectedId) return;
    const outfit = await dbGetOutfit(state.selectedId);
    if (!outfit) return;
    if (state.undoTimer) clearTimeout(state.undoTimer);
    state.lastDeleted = outfit;
    await dbDeleteOutfit(outfit.id);
    revokeThumbURL(outfit.id);
    closeDetailModal();        // state.selectedId = null
    await refresh();
    showToast("Eliminato", "Undo", async () => { ... }, 4500);
    state.undoTimer = setTimeout(() => {
      state.lastDeleted = null;
      state.undoTimer = null;
    }, 5000);
  }
  \<close>
\<close>

definition deleteDetailWithUndo :: "host \<Rightarrow> jsnum \<Rightarrow> app_state \<Rightarrow> outcome" where
  "deleteDetailWithUndo h now st =
     (case selectedId st of
        None \<Rightarrow> (None, st)
      | Some k \<Rightarrow>
          if \<not> truthy k then (None, st)
          else
            (case dbGetOutfit (db st) k of
               Inl e \<Rightarrow> (Some e, st)
             | Inr None \<Rightarrow> (None, st)
             | Inr (Some outfit) \<Rightarrow>
                 (let st1 = st\<lparr>undoTimer := False, lastDeleted := Some outfit\<rparr> in
                  case dbDeleteOutfit (db st1) (oid outfit) of
                    Inl e \<Rightarrow> (Some e, st1)
                  | Inr d \<Rightarrow>
                      (None, (refresh h now (st1\<lparr>db := d, selectedId := None\<rparr>))
                                \<lparr>undoTimer := True\<rparr>))))"

text \<open>
  The action of the toast's Undo button:
  \<^verbatim>\<open>
  async () => {
    if (!state.lastDeleted) return;
    await dbPutOutfit(state.lastDeleted);
    state.lastDeleted = null;
    await refresh();
    ...
  }
  \<close>
\<close>

definition undoDelete :: "host \<Rightarrow> jsnum \<Rightarrow> app_state \<Rightarrow> outcome" where
  "undoDelete h now st =
     (case lastDeleted st of
        None \<Rightarrow> (None, st)
      | Some outfit \<Rightarrow>
          (case dbPutOutfit (db st) outfit of
             Inl e \<Rightarrow> (Some e, st)
           | Inr d \<Rightarrow> (None, refresh h now (st\<lparr>db := d, lastDeleted := None\<rparr>))))"

text \<open>The timer, when it fires after five seconds.\<close>

definition undoTimerFires :: "app_state \<Rightarrow> app_state" where
  "undoTimerFires st = st\<lparr>lastDeleted := None, undoTimer := False\<rparr>"

section \<open>Backup codec\<close>

text \<open>
  Reading a property of a value of a parsed document: an own property of an object, and
  \<^verbatim>\<open>undefined\<close> otherwise (none of the names the program reads is a property of a
  string, number, boolean or array). The program reads a property only of a value it has
  tested to be truthy.
\<close>

fun get_prop :: "jsval \<Rightarrow> string \<Rightarrow> jsval" where
  "get_prop (JObj fs) k = (case map_of fs k of Some v \<Rightarrow> v | None \<Rightarrow> JUndefined)"
| "get_prop _ k = JUndefined"

fun isArray :: "jsval \<Rightarrow> bool" where
  "isArray (JArr _) = True"
| "isArray _ = False"

text \<open>
  What the import takes from its surroundings: the string that the \<open>n\<close>-th call of
  \<^verbatim>\<open>uid()\<close> returns (\<^verbatim>\<open>`o_${Date.now()}_${Math.random().toString(16).slice(2)}`\<close>),
  the time that \<^verbatim>\<open>Date.now()\<close> returns while the \<open>n\<close>-th entry is built, and the two
  platform conversions between an image payload and its data URL
  (\<^verbatim>\<open>FileReader.readAsDataURL\<close>, and \<^verbatim>\<open>fetch\<close> followed by \<^verbatim>\<open>blob()\<close>), each of
  which can fail.
\<close>

record surroundings =
  uid :: "nat \<Rightarrow> string"
  clock :: "nat \<Rightarrow> jsnum"
  blobToDataURL :: "blob \<Rightarrow> string option"
  dataURLToBlob :: "string \<Rightarrow> blob option"

text \<open>\<^verbatim>\<open>(o.notes || "").trim()\<close>\<close>

definition trimmedText :: "jsval \<Rightarrow> error + string" where
  "trimmedText v =
     (case js_or v (JStr []) of
        JStr s \<Rightarrow> Inr (trim s)
      | _ \<Rightarrow> Inl TypeError)"

text \<open>
  The record built for one entry \<open>e\<close> of the document:
  \<^verbatim>\<open>
  const outfit = {
    id,
    name: safeName(o.name),
    rating: clampRating(o.rating || 0),
    favorite: !!o.favorite,
    createdAt: Number(o.createdAt || Date.now()),
    imageBlob: blob,
    tags: Array.isArray(o.tags) ? parseTags(o.tags.join(",")) : parseTags(o.tags || ""),
    notes: (o.notes || "").trim(),
    wearCount: Number(o.wearCount || 0),
    lastWornAt: Number(o.lastWornAt || 0)
  };
  \<close>
\<close>

definition importedTags :: "host \<Rightarrow> jsval \<Rightarrow> error + string list" where
  "importedTags h v =
     (if isArray v then parseTags (JStr (ToString h v))
      else parseTags (js_or v (JStr [])))"

definition buildOutfit ::
  "host \<Rightarrow> jsnum \<Rightarrow> jsval \<Rightarrow> blob \<Rightarrow> jsval \<Rightarrow> error + outfit" where
  "buildOutfit h now k b e =
     (case safeName (get_prop e ''name'') of
        Inl err \<Rightarrow> Inl err
      | Inr nm \<Rightarrow>
     (case importedTags h (get_prop e ''tags'') of
        Inl err \<Rightarrow> Inl err
      | Inr ts \<Rightarrow>
     (case trimmedText (get_prop e ''notes'') of
        Inl err \<Rightarrow> Inl err
      | Inr nt \<Rightarrow>
          Inr \<lparr>oid = k,
               name = nm,
               rating = clampRating h (js_or (get_prop e ''rating'') (JNum (Fin 0))),
               favorite = truthy (get_prop e ''favorite''),
               createdAt = Number h (js_or (get_prop e ''createdAt'') (JNum now)),
               imageBlob = b,
               tags = ts,
               onotes = nt,
               wearCount = Number h (js_or (get_prop e ''wearCount'') (JNum (Fin 0))),
               lastWornAt = Number h (js_or (get_prop e ''lastWornAt'') (JNum (Fin 0)))\<rparr>)))"

text \<open>
  The loop of the import. Its state: the number of entries built so far, the set
  \<^verbatim>\<open>existing\<close> of ids, and the store.
  \<^verbatim>\<open>
  for (const o of data.outfits) {
    if (!o || !o.imageDataUrl) continue;
    const blob = await dataURLToBlob(o.imageDataUrl);
    const id = (o.id && !existing.has(o.id)) ? o.id : uid();
    existing.add(id);
    const outfit = { ... };
    await dbPutOutfit(outfit);
  }
  \<close>
  An exception leaves the loop and the function; what was put before stays in the store.
\<close>

definition hasPayload :: "jsval \<Rightarrow> bool" where
  "hasPayload e = (truthy e \<and> truthy (get_prop e ''imageDataUrl''))"

definition chooseId :: "surroundings \<Rightarrow> nat \<Rightarrow> jsval list \<Rightarrow> jsval \<Rightarrow> jsval" where
  "chooseId env n existing e =
     (if truthy (get_prop e ''id'') \<and> \<not> has_id existing (get_prop e ''id'')
      then get_prop e ''id'' else JStr (uid env n))"

fun importLoop ::
  "host \<Rightarrow> surroundings \<Rightarrow> jsval list \<Rightarrow> nat \<Rightarrow> jsval list \<Rightarrow> store \<Rightarrow>
     error option \<times> store" where
  "importLoop h env [] n existing d = (None, d)"
| "importLoop h env (e # es) n existing d =
     (if \<not> hasPayload e then importLoop h env es n existing d
      else
        (case dataURLToBlob env (ToString h (get_prop e ''imageDataUrl'')) of
           None \<Rightarrow> (Some FetchError, d)
         | Some b \<Rightarrow>
             (let k = chooseId env n existing e in
              case buildOutfit h (clock env n) k b e of
                Inl err \<Rightarrow> (Some err, d)
              | Inr outfit \<Rightarrow>
                  (case dbPutOutfit d outfit of
                     Inl err \<Rightarrow> (Some err, d)
                   | Inr d' \<Rightarrow> importLoop h env es (Suc n) (existing @ [k]) d'))))"

text \<open>
  \<^verbatim>\<open>
  async function importOutfitsFromFile(file) {
    const text = await file.text();
    const data = JSON.parse(text);
    if (!data || !Array.isArray(data.outfits)) throw new Error("Formato backup non valido");
    const existing = new Set(state.outfits.map(o => o.id));
    for (const o of data.outfits) { ... }
    await refresh();
    ...
  }
  \<close>
  The argument \<open>data\<close> is what reading and parsing the file gave: an error
  (the file cannot be read, its text is not JSON) or the parsed value.
\<close>

fun elements :: "jsval \<Rightarrow> jsval list" where
  "elements (JArr xs) = xs"
| "elements _ = []"

definition importOutfitsFromFile ::
  "host \<Rightarrow> surroundings \<Rightarrow> jsnum \<Rightarrow> app_state \<Rightarrow> error + jsval \<Rightarrow> outcome" where
  "importOutfitsFromFile h env now st data =
     (case data of
        Inl err \<Rightarrow> (Some err, st)
      | Inr v \<Rightarrow>
          if \<not> truthy v \<or> \<not> isArray (get_prop v ''outfits'') then (Some FormatError, st)
          else
            (case importLoop h env (elements (get_prop v ''outfits'')) 0
                    (from_Set (map oid (outfits st))) (db st) of
               (Some err, d) \<Rightarrow> (Some err, st\<lparr>db := d\<rparr>)
             | (None, d) \<Rightarrow> (None, refresh h now (st\<lparr>db := d\<rparr>))))"

text \<open>
  The document that \<^verbatim>\<open>exportOutfits\<close> builds before it prints it:
  \<^verbatim>\<open>
  const payload = { version: 1, exportedAt: new Date().toISOString(), outfits: [] };
  for (const o of outfits) {
    const imgData = await blobToDataURL(o.imageBlob);
    payload.outfits.push({ ...o, imageDataUrl: imgData, imageBlob: undefined });
  }
  const blob = new Blob([JSON.stringify(payload)], { type: "application/json" });
  \<close>
\<close>

definition exportEntry :: "outfit \<Rightarrow> string \<Rightarrow> jsval" where
  "exportEntry r imgData =
     JObj [(''id'', oid r),
           (''name'', JStr (name r)),
           (''rating'', JNum (rating r)),
           (''favorite'', JBool (favorite r)),
           (''createdAt'', JNum (createdAt r)),
           (''imageBlob'', JUndefined),
           (''tags'', JArr (map JStr (tags r))),
           (''notes'', JStr (onotes r)),
           (''wearCount'', JNum (wearCount r)),
           (''lastWornAt'', JNum (lastWornAt r)),
           (''imageDataUrl'', JStr imgData)]"

fun exportEntries :: "surroundings \<Rightarrow> outfit list \<Rightarrow> error + jsval list" where
  "exportEntries env [] = Inr []"
| "exportEntries env (r # rs) =
     (case blobToDataURL env (imageBlob r) of
        None \<Rightarrow> Inl ReadError
      | Some imgData \<Rightarrow>
          (case exportEntries env rs of
             Inl err \<Rightarrow> Inl err
           | Inr es \<Rightarrow> Inr (exportEntry r imgData # es)))"

definition exportPayload :: "surroundings \<Rightarrow> string \<Rightarrow> outfit list \<Rightarrow> error + jsval" where
  "exportPayload env exportedAt rs =
     (case exportEntries env rs of
        Inl err \<Rightarrow> Inl err
      | Inr es \<Rightarrow>
          Inr (JObj [(''version'', JNum (Fin 1)),
                     (''exportedAt'', JStr exportedAt),
                     (''outfits'', JArr es)]))"

text \<open>
  \<^verbatim>\<open>JSON.parse(JSON.stringify(v))\<close>, which is what the import reads of an exported
  document: a property whose value is \<^verbatim>\<open>undefined\<close> is dropped, an \<^verbatim>\<open>undefined\<close>
  array element and a number that is not finite become \<^verbatim>\<open>null\<close>, and everything else
  comes back as it was.
\<close>

fun reparse :: "jsval \<Rightarrow> jsval" where
  "reparse (JNum n) = (if isFinite n then JNum n else JNull)"
| "reparse (JArr xs) = JArr (map (\<lambda>x. if x = JUndefined then JNull else reparse x) xs)"
| "reparse (JObj fs) =
     JObj (map (\<lambda>(k, v). (k, reparse v)) (filter (\<lambda>(k, v). v \<noteq> JUndefined) fs))"
| "reparse v = v"

text \<open>
  \<^verbatim>\<open>exportOutfits\<close> followed by the reading of the downloaded file: the \<open>data\<close> that
  \<^verbatim>\<open>importOutfitsFromFile\<close> then works on.
\<close>

definition exportedFile :: "surroundings \<Rightarrow> string \<Rightarrow> outfit list \<Rightarrow> error + jsval" where
  "exportedFile env exportedAt rs =
     (case exportPayload env exportedAt rs of
        Inl err \<Rightarrow> Inl err
      | Inr v \<Rightarrow> Inr (reparse v))"


text \<open>
  The form in which the program writes a record: what \<^verbatim>\<open>confirmCreateSave\<close>,
  \<^verbatim>\<open>saveDetail\<close> and \<^verbatim>\<open>wearToday\<close> store. The id is the non-empty string of
  \<^verbatim>\<open>uid()\<close>; the name went through \<open>safeName\<close>, the rating through \<open>clampRating\<close>,
  the tags through \<open>parseTags\<close> (so a tag has no comma and no white space at its ends),
  the notes through \<^verbatim>\<open>trim\<close>; the creation time is a reading of the clock; the wear
  count and the last-worn time are 0 or a count and a reading of the clock.
\<close>

definition canonical_tags :: "string list \<Rightarrow> bool" where
  "canonical_tags ts =
     (tags_ok ts \<and> list_all (\<lambda>t. CHR '','' \<notin> set t \<and> trim t = t) ts)"

fun nonempty_string :: "jsval \<Rightarrow> bool" where
  "nonempty_string (JStr s) = (s \<noteq> [])"
| "nonempty_string _ = False"

definition as_written :: "outfit \<Rightarrow> bool" where
  "as_written r =
     (nonempty_string (oid r) \<and>
      name r \<noteq> [] \<and> trim (name r) = name r \<and>
      rating r \<in> rating_values \<and>
      isFinite (createdAt r) \<and> createdAt r \<noteq> Fin 0 \<and>
      canonical_tags (tags r) \<and>
      trim (onotes r) = onotes r \<and>
      isFinite (wearCount r) \<and> isFinite (lastWornAt r))"


section \<open>Concrete inputs\<close>




definition demo_host :: host where
  "demo_host = \<lparr>StringToNumber = (\<lambda>s. NaN), NumberToString = (\<lambda>n. []),
      localeCompare = (\<lambda>a b. Fin 0)\<rparr>"

definition demo_outfit :: outfit where
  "demo_outfit = \<lparr>oid = JStr ''o_1_a'', name = ''Blue'', rating = Fin 4, favorite = True,
      createdAt = Fin 1000, imageBlob = Blob ''image/jpeg'' [255, 216],
      tags = [''summer''], onotes = [], wearCount = Fin 1, lastWornAt = Fin 1000\<rparr>"

definition stale_state :: app_state where
  "stale_state = \<lparr>db = [demo_outfit], outfits = [demo_outfit], filtered = [],
      search = [], sort_mode = ''date_desc'',
      filter_spec = \<lparr>fav = False, minRating = Fin 0, staleDays = Fin 1, tag = []\<rparr>,
      selectedId = None, selectMode = False, selectedSet = [],
      lastDeleted = None, undoTimer = False\<rparr>"

definition outfit_B :: outfit where
  "outfit_B = demo_outfit\<lparr>oid := JStr ''o_2_b'', name := ''Red'', favorite := False\<rparr>"

definition select_state :: app_state where
  "select_state = stale_state\<lparr>db := [demo_outfit, outfit_B],
      outfits := [demo_outfit, outfit_B], selectMode := True,
      selectedSet := [JStr ''o_1_a'', JStr ''o_2_b'']\<rparr>"

definition detail_state :: app_state where
  "detail_state = stale_state\<lparr>selectedId := Some (JStr ''o_1_a'')\<rparr>"

definition demo_env :: surroundings where
  "demo_env = \<lparr>uid = (\<lambda>n. ''o_2000_ab''), clock = (\<lambda>n. Fin 5000),
      blobToDataURL = (\<lambda>b. Some ''data:image/jpeg;base64,/9g=''),
      dataURLToBlob = (\<lambda>u. if u = ''data:image/jpeg;base64,/9g=''
                               then Some (Blob ''image/jpeg'' [255, 216]) else None)\<rparr>"

definition entry_colliding :: jsval where
  "entry_colliding = JObj [(''id'', JStr ''o_1_a''), (''name'', JStr '' Green ''),
      (''rating'', JNum (Fin 9)), (''tags'', JArr [JStr ''Work'', JStr ''work'']),
      (''imageDataUrl'', JStr ''data:image/jpeg;base64,/9g='')]"

definition entry_no_image :: jsval where
  "entry_no_image = JObj [(''id'', JStr ''o_3_c''), (''name'', JStr ''Lost'')]"

definition imported_outfit :: outfit where
  "imported_outfit = \<lparr>oid = JStr ''o_2000_ab'', name = ''Green'', rating = Fin 5,
      favorite = False, createdAt = Fin 5000, imageBlob = Blob ''image/jpeg'' [255, 216],
      tags = [''work''], onotes = [], wearCount = Fin 0, lastWornAt = Fin 0\<rparr>"

definition empty_state :: app_state where
  "empty_state = stale_state\<lparr>db := [], outfits := []\<rparr>"

section \<open>Theorems\<close>

lemma clamp_round_cases:
  "Math_min (Fin 5) (Math_max (Fin 0) (Math_round (Fin x))) \<in> rating_values"
proof -
  define k where "k = \<lfloor>x + 1 / 2\<rfloor>"
  have "k \<le> 0 \<or> k = 1 \<or> k = 2 \<or> k = 3 \<or> k = 4 \<or> 5 \<le> k"
    by linarith
  then show ?thesis
    unfolding Math_round.simps k_def [symmetric]
    by (auto simp: Math_min_def Math_max_def rating_values_def)
qed

lemma clampRating_in_range: "clampRating h n \<in> rating_values"
proof (cases "Number h n")
  case (Fin x)
  then show ?thesis
    using clamp_round_cases [of x] by (simp add: clampRating_def)
qed (simp_all add: clampRating_def rating_values_def)

lemma clampRating_fixed: "r \<in> rating_values \<Longrightarrow> clampRating h (JNum r) = r"
  by (auto simp: clampRating_def rating_values_def Math_min_def Math_max_def)

text \<open>
  C9. Whatever value \<open>clampRating\<close> is given (out of range, not a number, a fraction,
  a string, an array), it returns one of the integers 0 to 5, and clamping its result
  again returns the same result.
\<close>

theorem clampRating_range_idempotent:
  "clampRating h n \<in> rating_values \<and>
   clampRating h (JNum (clampRating h n)) = clampRating h n"
  using clampRating_in_range clampRating_fixed by blast

theorem clampRating_range_idempotent_witness:
  "clampRating \<lparr>StringToNumber = (\<lambda>s. NaN), NumberToString = (\<lambda>n. []),
       localeCompare = (\<lambda>a b. Fin 0)\<rparr> (JNum (Fin (7 / 2))) = Fin 4 \<and>
   clampRating \<lparr>StringToNumber = (\<lambda>s. NaN), NumberToString = (\<lambda>n. []),
       localeCompare = (\<lambda>a b. Fin 0)\<rparr> (JNum (Fin 4)) = Fin 4"
  using clampRating_range_idempotent
    [of "\<lparr>StringToNumber = (\<lambda>s. NaN), NumberToString = (\<lambda>n. []),
       localeCompare = (\<lambda>a b. Fin 0)\<rparr>" "JNum (Fin (7 / 2))"]
  by (simp add: clampRating_def Math_min_def Math_max_def)

lemma set_foldl_set_add: "set (foldl set_add acc xs) = set acc \<union> set xs"
  by (induction xs arbitrary: acc) (auto simp: set_add_def)

lemma distinct_foldl_set_add: "distinct acc \<Longrightarrow> distinct (foldl set_add acc xs)"
  by (induction xs arbitrary: acc) (auto simp: set_add_def)

lemma distinct_from_Set: "distinct (from_Set xs)"
  by (simp add: from_Set_def distinct_foldl_set_add)

lemma set_from_Set: "set (from_Set xs) = set xs"
  by (simp add: from_Set_def set_foldl_set_add)

lemma lowerChar_idem: "lowerChar (lowerChar c) = lowerChar c"
  by (auto simp: lowerChar_def)

lemma toLowerCase_idem: "toLowerCase (toLowerCase s) = toLowerCase s"
  by (simp add: toLowerCase_def lowerChar_idem)

lemma parseTagsText_ok: "tags_ok (parseTagsText s)"
proof -
  define ys where "ys = filter (\<lambda>x. x \<noteq> []) (map (\<lambda>x. toLowerCase (trim x)) (split (CHR '','') s))"
  have d: "distinct (take 20 (from_Set ys))"
    by (rule distinct_take) (rule distinct_from_Set)
  have "t \<noteq> [] \<and> toLowerCase t = t" if "t \<in> set ys" for t
  proof -
    from that obtain x where "t = toLowerCase (trim x)" and "t \<noteq> []"
      unfolding ys_def by auto
    then show ?thesis by (simp add: toLowerCase_idem)
  qed
  moreover have "set (take 20 (from_Set ys)) \<subseteq> set ys"
    using set_take_subset [of 20 "from_Set ys"] by (simp add: set_from_Set)
  ultimately have "list_all (\<lambda>t. t \<noteq> [] \<and> toLowerCase t = t) (take 20 (from_Set ys))"
    unfolding list_all_iff by blast
  with d show ?thesis
    unfolding tags_ok_def parseTagsText_def ys_def [symmetric] by simp
qed



subsection \<open>Image normalizer\<close>














subsection \<open>Filters and sorting\<close>
lemma applyFiltersAndSort_frame:
  "applyFiltersAndSort h now st = st\<lparr>filtered := filtered (applyFiltersAndSort h now st)\<rparr>"
  by (simp add: applyFiltersAndSort_def Let_def)

lemma applyFiltersAndSort_inputs:
  assumes "outfits s1 = outfits s2" "search s1 = search s2"
    "sort_mode s1 = sort_mode s2" "filter_spec s1 = filter_spec s2"
  shows "filtered (applyFiltersAndSort h now s1) = filtered (applyFiltersAndSort h now s2)"
  using assms by (simp add: applyFiltersAndSort_def Let_def)

lemma applyFiltersAndSort_clock:
  assumes "\<not> js_gt (staleDays (filter_spec st)) (Fin 0)"
  shows "applyFiltersAndSort h now st = applyFiltersAndSort h now' st"
  using assms by (simp add: applyFiltersAndSort_def Let_def)

lemma applyFiltersAndSort_twice:
  "applyFiltersAndSort h now (applyFiltersAndSort h now st) = applyFiltersAndSort h now st"
  by (simp add: applyFiltersAndSort_def Let_def)

text \<open>
  C2, as the program has it. \<open>applyFiltersAndSort\<close> writes \<open>state.filtered\<close> and
  nothing else; the list it writes is a function of the record set, the search text, the
  sort mode, the filter and the time of the call (and of the host's collation), so two
  calls on the same inputs at the same time give the same list, and a second call changes
  nothing; when the stale filter is off (\<open>staleDays > 0\<close> is false) the time of the call
  does not matter either.
\<close>

theorem applyFiltersAndSort_deterministic:
  "applyFiltersAndSort h now st = st\<lparr>filtered := filtered (applyFiltersAndSort h now st)\<rparr> \<and>
   (outfits s1 = outfits s2 \<and> search s1 = search s2 \<and>
    sort_mode s1 = sort_mode s2 \<and> filter_spec s1 = filter_spec s2 \<longrightarrow>
      filtered (applyFiltersAndSort h now s1) = filtered (applyFiltersAndSort h now s2)) \<and>
   (\<not> js_gt (staleDays (filter_spec st)) (Fin 0) \<longrightarrow>
      applyFiltersAndSort h now st = applyFiltersAndSort h now' st) \<and>
   applyFiltersAndSort h now (applyFiltersAndSort h now st) = applyFiltersAndSort h now st"
  using applyFiltersAndSort_frame [of h now st] applyFiltersAndSort_inputs [of s1 s2 h now]
    applyFiltersAndSort_clock [of st h now now'] applyFiltersAndSort_twice [of h now st]
  by blast

theorem applyFiltersAndSort_deterministic_witness:
  "filtered (applyFiltersAndSort demo_host (Fin 86402000)
       (stale_state\<lparr>filtered := [demo_outfit, demo_outfit], selectMode := True\<rparr>)) =
     filtered (applyFiltersAndSort demo_host (Fin 86402000) stale_state) \<and>
   applyFiltersAndSort demo_host (Fin 86400500)
       (stale_state\<lparr>filter_spec := \<lparr>fav = True, minRating = Fin 4, staleDays = Fin 0, tag = []\<rparr>\<rparr>) =
     applyFiltersAndSort demo_host (Fin 86402000)
       (stale_state\<lparr>filter_spec := \<lparr>fav = True, minRating = Fin 4, staleDays = Fin 0, tag = []\<rparr>\<rparr>)"
proof -
  have a: "filtered (applyFiltersAndSort demo_host (Fin 86402000)
       (stale_state\<lparr>filtered := [demo_outfit, demo_outfit], selectMode := True\<rparr>)) =
     filtered (applyFiltersAndSort demo_host (Fin 86402000) stale_state)"
    using applyFiltersAndSort_deterministic
      [of demo_host "Fin 86402000" stale_state
          "stale_state\<lparr>filtered := [demo_outfit, demo_outfit], selectMode := True\<rparr>"
          stale_state "Fin 86402000"]
    by simp
  have b: "applyFiltersAndSort demo_host (Fin 86400500)
       (stale_state\<lparr>filter_spec := \<lparr>fav = True, minRating = Fin 4, staleDays = Fin 0, tag = []\<rparr>\<rparr>) =
     applyFiltersAndSort demo_host (Fin 86402000)
       (stale_state\<lparr>filter_spec := \<lparr>fav = True, minRating = Fin 4, staleDays = Fin 0, tag = []\<rparr>\<rparr>)"
    using applyFiltersAndSort_deterministic
      [of demo_host "Fin 86400500"
          "stale_state\<lparr>filter_spec := \<lparr>fav = True, minRating = Fin 4, staleDays = Fin 0, tag = []\<rparr>\<rparr>"
          stale_state stale_state "Fin 86402000"]
    by (simp add: js_gt_def)
  from a b show ?thesis by (rule conjI)
qed

text \<open>
  C2 as stated fails: the output is not a function of the record set and the criteria
  alone. With the stale filter at one day, a record last worn at time 1000 is hidden when
  the clock reads 86400500 and shown when it reads 86402000.
\<close>

theorem applyFiltersAndSort_counterexample:
  "filtered (applyFiltersAndSort demo_host (Fin 86400500) stale_state) = [] \<and>
   filtered (applyFiltersAndSort demo_host (Fin 86402000) stale_state) = [demo_outfit]"
  by (simp add: applyFiltersAndSort_def Let_def stale_state_def demo_outfit_def
      staleLimit_def js_gt_def num_or0_def Array_sort_def trim_def toLowerCase_def)

subsection \<open>Record store\<close>

lemma refresh_fields [simp]:
  "db (refresh h now st) = db st"
  "outfits (refresh h now st) = dbGetAllOutfits (db st)"
  "selectedId (refresh h now st) = selectedId st"
  "selectedSet (refresh h now st) = selectedSet st"
  "lastDeleted (refresh h now st) = lastDeleted st"
  "undoTimer (refresh h now st) = undoTimer st"
  by (simp_all add: refresh_def renderGrid_def applyFiltersAndSort_def Let_def)

lemma store_ok_valid: "store_ok d \<Longrightarrow> x \<in> set d \<Longrightarrow> validKey (oid x)"
  by (auto simp: store_ok_def list_all_iff)

lemma distinct_key_eq:
  "distinct (map oid d) \<Longrightarrow> x \<in> set d \<Longrightarrow> y \<in> set d \<Longrightarrow> oid x = oid y \<Longrightarrow> x = y"
  by (meson distinct_map inj_onD)

lemma put_existing:
  assumes "validKey (oid x)" "has_key d (oid x)"
  shows "dbPutOutfit d x = Inr (map (\<lambda>r. if oid r = oid x then x else r) d)"
  using assms by (simp add: dbPutOutfit_def)

lemma put_fresh:
  assumes "validKey (oid x)" "\<not> has_key d (oid x)"
  shows "dbPutOutfit d x = Inr (d @ [x])"
  using assms by (simp add: dbPutOutfit_def)

lemma putAll_update:
  assumes "distinct (map oid d)" and "set xs \<subseteq> set d" and "distinct (map oid xs)"
    and "\<forall>r \<in> set xs. validKey (oid r)" and "\<And>r. oid (f r) = oid r"
  shows "putAll d (map f xs) =
           (None, map (\<lambda>r. if oid r \<in> oid ` set xs then f r else r) d)"
  using assms(1-4)
proof (induction xs arbitrary: d)
  case Nil
  then show ?case by simp
next
  case (Cons x xs)
  define d1 where "d1 = map (\<lambda>r. if oid r = oid x then f x else r) d"
  have xd: "x \<in> set d" using Cons.prems(2) by simp
  have put: "dbPutOutfit d (f x) = Inr d1"
    unfolding d1_def using put_existing [of "f x" d] Cons.prems(4) xd
    by (simp add: assms(5) has_key_def)
  have keys: "map oid d1 = map oid d"
    unfolding d1_def by (simp add: assms(5))
  have sub: "set xs \<subseteq> set d1"
  proof
    fix y assume y: "y \<in> set xs"
    then have "oid y \<noteq> oid x" using Cons.prems(3) by (auto simp: image_iff)
    moreover have "y \<in> set d" using y Cons.prems(2) by auto
    ultimately show "y \<in> set d1" unfolding d1_def by force
  qed
  have ih: "putAll d1 (map f xs) =
      (None, map (\<lambda>r. if oid r \<in> oid ` set xs then f r else r) d1)"
    using Cons.IH [of d1] keys Cons.prems sub by simp
  have notin: "oid x \<notin> oid ` set xs" using Cons.prems(3) by simp
  have "map (\<lambda>r. if oid r \<in> oid ` set xs then f r else r) d1 =
        map (\<lambda>r. if oid r \<in> oid ` set (x # xs) then f r else r) d"
    unfolding d1_def map_map
  proof (rule map_cong [OF refl])
    fix r assume r: "r \<in> set d"
    show "((\<lambda>r. if oid r \<in> oid ` set xs then f r else r) \<circ>
           (\<lambda>r. if oid r = oid x then f x else r)) r =
          (if oid r \<in> oid ` set (x # xs) then f r else r)"
    proof (cases "oid r = oid x")
      case True
      then have "r = x" using distinct_key_eq [OF Cons.prems(1) r xd] by simp
      then show ?thesis using notin by (simp add: assms(5))
    next
      case False
      then show ?thesis by simp
    qed
  qed
  then show ?case using put ih by simp
qed

subsection \<open>Bulk favorite\<close>

lemma has_id_primitive:
  "list_all primitive ids \<Longrightarrow> has_id ids k \<longleftrightarrow> k \<in> set ids"
  by (auto simp: has_id_def list_all_iff)

lemma bulkToggleFavorite_db:
  assumes ok: "store_ok (db st)" and sync: "outfits st = db st"
    and ne: "selectedSet st \<noteq> []" and prim: "list_all primitive (selectedSet st)"
  shows "bulkToggleFavorite h now st =
     (None, refresh h now (st\<lparr>db :=
        map (\<lambda>r. if oid r \<in> set (selectedSet st) then r\<lparr>favorite := targetFav st\<rparr> else r)
          (db st)\<rparr>))"
proof -
  let ?xs = "selectedOutfits st"
  let ?f = "\<lambda>r. r\<lparr>favorite := targetFav st\<rparr>"
  have xs: "?xs = filter (\<lambda>r. oid r \<in> set (selectedSet st)) (db st)"
    by (simp add: selectedOutfits_def sync has_id_primitive [OF prim])
  have d: "distinct (map oid (db st))" using ok by (simp add: store_ok_def)
  have sub: "set ?xs \<subseteq> set (db st)" unfolding xs by auto
  have dx: "distinct (map oid ?xs)" unfolding xs using d by (rule distinct_map_filter)
  have v: "\<forall>r \<in> set ?xs. validKey (oid r)"
    using sub store_ok_valid [OF ok] by blast
  have "putAll (db st) (map ?f ?xs) =
      (None, map (\<lambda>r. if oid r \<in> oid ` set ?xs then ?f r else r) (db st))"
    by (rule putAll_update [OF d sub dx v]) simp
  moreover have "map (\<lambda>r. if oid r \<in> oid ` set ?xs then ?f r else r) (db st) =
      map (\<lambda>r. if oid r \<in> set (selectedSet st) then ?f r else r) (db st)"
    by (rule map_cong [OF refl]) (auto simp: xs)
  ultimately show ?thesis
    using ne by (simp add: bulkToggleFavorite_def)
qed

lemma targetFav_iff:
  assumes "outfits st = db st" and "list_all primitive (selectedSet st)"
  shows "targetFav st \<longleftrightarrow>
     \<not> ((\<exists>r \<in> set (db st). oid r \<in> set (selectedSet st)) \<and>
        (\<forall>r \<in> set (db st). oid r \<in> set (selectedSet st) \<longrightarrow> favorite r))"
  by (auto simp: targetFav_def selectedOutfits_def assms(1) has_id_primitive [OF assms(2)]
      list_all_iff filter_empty_conv)

text \<open>
  C7. With the snapshot in step with the store and a non-empty selection (of string or
  number ids), \<open>bulkToggleFavorite\<close> completes and leaves every record that is not
  selected as it was; on every selected record it sets \<open>favorite\<close> to one and the same
  value: false if all selected records were favorites, true otherwise. So with A a
  favorite and B not, selecting both makes both favorites.
\<close>

theorem bulkToggleFavorite_majority:
  assumes "store_ok (db st)" and "outfits st = db st"
    and "selectedSet st \<noteq> []" and "list_all primitive (selectedSet st)"
  shows "\<exists>st'. bulkToggleFavorite h now st = (None, st') \<and>
     outfits st' = db st' \<and>
     db st' =
       map (\<lambda>r. if oid r \<in> set (selectedSet st)
                then r\<lparr>favorite :=
                  \<not> (\<forall>x \<in> set (db st). oid x \<in> set (selectedSet st) \<longrightarrow> favorite x)\<rparr>
                else r) (db st)"
proof -
  let ?t = "\<not> (\<forall>x \<in> set (db st). oid x \<in> set (selectedSet st) \<longrightarrow> favorite x)"
  have "map (\<lambda>r. if oid r \<in> set (selectedSet st) then r\<lparr>favorite := targetFav st\<rparr> else r)
          (db st) =
        map (\<lambda>r. if oid r \<in> set (selectedSet st) then r\<lparr>favorite := ?t\<rparr> else r) (db st)"
  proof (rule map_cong [OF refl])
    fix r assume r: "r \<in> set (db st)"
    show "(if oid r \<in> set (selectedSet st) then r\<lparr>favorite := targetFav st\<rparr> else r) =
          (if oid r \<in> set (selectedSet st) then r\<lparr>favorite := ?t\<rparr> else r)"
    proof (cases "oid r \<in> set (selectedSet st)")
      case True
      then have "targetFav st = ?t"
        using r targetFav_iff [OF assms(2,4)] by blast
      then show ?thesis by simp
    next
      case False
      then show ?thesis by simp
    qed
  qed
  then show ?thesis
    using bulkToggleFavorite_db [OF assms, of h now]
    by (simp add: dbGetAllOutfits_def)
qed

theorem bulkToggleFavorite_majority_witness:
  "db (snd (bulkToggleFavorite demo_host (Fin 0) select_state)) =
     [demo_outfit, outfit_B\<lparr>favorite := True\<rparr>] \<and>
   db (snd (bulkToggleFavorite demo_host (Fin 0)
        (select_state\<lparr>db := [demo_outfit, outfit_B\<lparr>favorite := True\<rparr>],
                       outfits := [demo_outfit, outfit_B\<lparr>favorite := True\<rparr>]\<rparr>))) =
     [demo_outfit\<lparr>favorite := False\<rparr>, outfit_B\<lparr>favorite := False\<rparr>]"
proof -
  let ?s2 = "select_state\<lparr>db := [demo_outfit, outfit_B\<lparr>favorite := True\<rparr>],
                       outfits := [demo_outfit, outfit_B\<lparr>favorite := True\<rparr>]\<rparr>"
  have ids: "oid demo_outfit = JStr ''o_1_a''" "oid outfit_B = JStr ''o_2_b''"
    "favorite demo_outfit" "\<not> favorite outfit_B"
    by (simp_all add: demo_outfit_def outfit_B_def)
  have 1: "store_ok (db select_state)" "outfits select_state = db select_state"
    "selectedSet select_state \<noteq> []" "list_all primitive (selectedSet select_state)"
    "db select_state = [demo_outfit, outfit_B]"
    "selectedSet select_state = [JStr ''o_1_a'', JStr ''o_2_b'']"
    by (simp_all add: select_state_def store_ok_def ids)
  have 2: "store_ok (db ?s2)" "outfits ?s2 = db ?s2"
    "selectedSet ?s2 \<noteq> []" "list_all primitive (selectedSet ?s2)"
    "db ?s2 = [demo_outfit, outfit_B\<lparr>favorite := True\<rparr>]"
    "selectedSet ?s2 = [JStr ''o_1_a'', JStr ''o_2_b'']"
    by (simp_all add: select_state_def store_ok_def ids)
  have a: "db (snd (bulkToggleFavorite demo_host (Fin 0) select_state)) =
     [demo_outfit, outfit_B\<lparr>favorite := True\<rparr>]"
    using bulkToggleFavorite_majority [OF 1(1-4), of demo_host "Fin 0"]
    by (auto simp: 1(5,6) ids)
  have b: "db (snd (bulkToggleFavorite demo_host (Fin 0) ?s2)) =
     [demo_outfit\<lparr>favorite := False\<rparr>, outfit_B\<lparr>favorite := False\<rparr>]"
    using bulkToggleFavorite_majority [OF 2(1-4), of demo_host "Fin 0"]
    by (auto simp: 2(5,6) ids)
  from a b show ?thesis by (rule conjI)
qed

subsection \<open>Delete with undo\<close>

lemma find_by_key:
  assumes "distinct (map oid d)" and "x \<in> set d"
  shows "find (\<lambda>r. oid r = oid x) d = Some x"
proof -
  obtain y where y: "find (\<lambda>r. oid r = oid x) d = Some y"
    using assms(2) by (cases "find (\<lambda>r. oid r = oid x) d") (auto simp: find_None_iff)
  then have "y \<in> set d" "oid y = oid x"
    by (auto simp: find_Some_iff)
  then have "y = x" using distinct_key_eq [OF assms(1) _ assms(2)] by simp
  with y show ?thesis by simp
qed

lemma delete_key_set:
  assumes "distinct (map oid d)" and "x \<in> set d"
  shows "set (filter (\<lambda>r. oid r \<noteq> oid x) d) = set d - {x}"
  using distinct_key_eq [OF assms(1) _ assms(2)] by auto

lemma store_ok_filter: "store_ok d \<Longrightarrow> store_ok (filter P d)"
  by (auto simp: store_ok_def list_all_iff distinct_map_filter)

lemma store_ok_append:
  "store_ok d \<Longrightarrow> validKey (oid x) \<Longrightarrow> \<not> has_key d (oid x) \<Longrightarrow> store_ok (d @ [x])"
  by (auto simp: store_ok_def has_key_def)

text \<open>
  C8. Let X be a record of the store, open in the detail view. Deleting it removes it
  from the store and remembers it; the Undo action, taken before the timer fires, puts
  it back: the store then holds the records it held before the deletion, X among them
  and equal to what it was, and the snapshot shows them. A second Undo finds nothing
  remembered and leaves the whole state as it is. (Once the timer has fired, Undo does
  nothing.)
\<close>

theorem delete_undo_restores:
  assumes "store_ok (db st)" and "X \<in> set (db st)"
    and "selectedId st = Some (oid X)" and "truthy (oid X)"
  shows "\<exists>s1 s2.
     deleteDetailWithUndo h n1 st = (None, s1) \<and>
     X \<notin> set (dbGetAllOutfits (db s1)) \<and>
     undoDelete h n2 s1 = (None, s2) \<and>
     X \<in> set (dbGetAllOutfits (db s2)) \<and>
     set (dbGetAllOutfits (db s2)) = set (dbGetAllOutfits (db st)) \<and>
     store_ok (db s2) \<and>
     outfits s2 = dbGetAllOutfits (db s2) \<and>
     undoDelete h n3 s2 = (None, s2) \<and>
     undoDelete h n2 (undoTimerFires s1) = (None, undoTimerFires s1)"
proof -
  have d: "distinct (map oid (db st))" using assms(1) by (simp add: store_ok_def)
  have v: "validKey (oid X)" using store_ok_valid [OF assms(1,2)] .
  define d1 where "d1 = filter (\<lambda>r. oid r \<noteq> oid X) (db st)"
  define s1 where "s1 = (refresh h n1
      (st\<lparr>undoTimer := False, lastDeleted := Some X, db := d1, selectedId := None\<rparr>))
        \<lparr>undoTimer := True\<rparr>"
  define s2 where "s2 = refresh h n2 (s1\<lparr>db := d1 @ [X], lastDeleted := None\<rparr>)"
  have get: "dbGetOutfit (db st) (oid X) = Inr (Some X)"
    using v find_by_key [OF d assms(2)] by (simp add: dbGetOutfit_def)
  have del: "deleteDetailWithUndo h n1 st = (None, s1)"
    using assms(3,4) get v
    by (simp add: deleteDetailWithUndo_def dbDeleteOutfit_def s1_def d1_def Let_def)
  have db1: "db s1 = d1" and last1: "lastDeleted s1 = Some X"
    by (simp_all add: s1_def)
  have set1: "set d1 = set (db st) - {X}"
    unfolding d1_def by (rule delete_key_set [OF d assms(2)])
  have nokey: "\<not> has_key d1 (oid X)"
    by (auto simp: has_key_def d1_def)
  have undo: "undoDelete h n2 s1 = (None, s2)"
    using put_fresh [OF v nokey] by (simp add: undoDelete_def db1 last1 s2_def)
  have db2: "db s2 = d1 @ [X]" and last2: "lastDeleted s2 = None"
    and out2: "outfits s2 = dbGetAllOutfits (db s2)"
    by (simp_all add: s2_def)
  have set2: "set (db s2) = set (db st)"
    using set1 assms(2) by (auto simp: db2)
  have ok2: "store_ok (db s2)"
    unfolding db2 d1_def
    by (rule store_ok_append [OF store_ok_filter [OF assms(1)] v nokey [unfolded d1_def]])
  have again: "undoDelete h n3 s2 = (None, s2)"
    by (simp add: undoDelete_def last2)
  have expired: "undoDelete h n2 (undoTimerFires s1) = (None, undoTimerFires s1)"
    by (simp add: undoDelete_def undoTimerFires_def)
  show ?thesis
    using del undo again expired set1 set2 ok2 out2 db1
    by (auto simp: dbGetAllOutfits_def db2)
qed

theorem delete_undo_restores_witness:
  "fst (deleteDetailWithUndo demo_host (Fin 5) detail_state) = None \<and>
   db (snd (deleteDetailWithUndo demo_host (Fin 5) detail_state)) = [] \<and>
   db (snd (undoDelete demo_host (Fin 6)
         (snd (deleteDetailWithUndo demo_host (Fin 5) detail_state)))) = [demo_outfit] \<and>
   undoDelete demo_host (Fin 7)
     (snd (undoDelete demo_host (Fin 6)
         (snd (deleteDetailWithUndo demo_host (Fin 5) detail_state)))) =
     (None, snd (undoDelete demo_host (Fin 6)
         (snd (deleteDetailWithUndo demo_host (Fin 5) detail_state))))"
proof -
  have h: "store_ok (db detail_state)" "demo_outfit \<in> set (db detail_state)"
    "selectedId detail_state = Some (oid demo_outfit)" "truthy (oid demo_outfit)"
    "db detail_state = [demo_outfit]"
    by (simp_all add: detail_state_def stale_state_def store_ok_def demo_outfit_def)
  from delete_undo_restores [OF h(1-4), of demo_host "Fin 5" "Fin 6" "Fin 7"]
  obtain s1 s2 where
    1: "deleteDetailWithUndo demo_host (Fin 5) detail_state = (None, s1)" and
    2: "demo_outfit \<notin> set (dbGetAllOutfits (db s1))" and
    3: "undoDelete demo_host (Fin 6) s1 = (None, s2)" and
    4: "set (dbGetAllOutfits (db s2)) = set (dbGetAllOutfits (db detail_state))" and
    5: "store_ok (db s2)" and
    6: "undoDelete demo_host (Fin 7) s2 = (None, s2)"
    by blast
  have k: "oid demo_outfit = JStr ''o_1_a''"
    by (simp add: demo_outfit_def)
  have g: "dbGetOutfit [demo_outfit] (JStr ''o_1_a'') = Inr (Some demo_outfit)"
    "dbDeleteOutfit [demo_outfit] (JStr ''o_1_a'') = Inr []"
    "dbPutOutfit [] demo_outfit = Inr [demo_outfit]"
    by (simp_all add: dbGetOutfit_def dbDeleteOutfit_def dbPutOutfit_def has_key_def k)
  have sel: "selectedId detail_state = Some (JStr ''o_1_a'')"
    by (simp add: detail_state_def)
  have c: "db (snd (deleteDetailWithUndo demo_host (Fin 5) detail_state)) = [] \<and>
      lastDeleted (snd (deleteDetailWithUndo demo_host (Fin 5) detail_state)) = Some demo_outfit"
    by (simp add: deleteDetailWithUndo_def sel h(5) g k Let_def)
  have e1: "db s1 = [] \<and> lastDeleted s1 = Some demo_outfit"
    using c unfolding 1 by simp
  have e2: "db s2 = [demo_outfit]"
    using 3 e1 by (auto simp: undoDelete_def g)
  show ?thesis by (simp add: 1 3 6 e1 e2)
qed

subsection \<open>Backup codec: validation of an entry\<close>

lemma dropWhile_fixed: "xs = [] \<or> \<not> P (hd xs) \<Longrightarrow> dropWhile P xs = xs"
  by (cases xs) auto

lemma dropWhile_head: "dropWhile P xs = [] \<or> \<not> P (hd (dropWhile P xs))"
  using hd_dropWhile [of P xs] by blast

lemma last_dropWhile_rev:
  assumes "dropWhile P (rev u) \<noteq> []"
  shows "last (dropWhile P (rev u)) = hd u"
proof -
  have "rev u = takeWhile P (rev u) @ dropWhile P (rev u)" by simp
  then have "last (rev u) = last (dropWhile P (rev u))"
    using assms by (metis last_appendR)
  moreover have "u \<noteq> []" using assms by auto
  ultimately show ?thesis by (simp add: last_rev)
qed

lemma trim_idem: "trim (trim s) = trim s"
proof -
  define u where "u = dropWhile isSpace s"
  define v where "v = dropWhile isSpace (rev u)"
  have t: "trim s = rev v" by (simp add: trim_def u_def v_def)
  have "dropWhile isSpace (rev v) = rev v"
  proof (rule dropWhile_fixed, cases "v = []")
    case True
    then show "rev v = [] \<or> \<not> isSpace (hd (rev v))" by simp
  next
    case False
    then have l: "last v = hd u" unfolding v_def by (rule last_dropWhile_rev)
    from False have "u \<noteq> []" by (auto simp: v_def)
    then have "\<not> isSpace (hd u)" using dropWhile_head [of isSpace s] unfolding u_def by blast
    then show "rev v = [] \<or> \<not> isSpace (hd (rev v))"
      using False l by (simp add: hd_rev)
  qed
  moreover have "dropWhile isSpace v = v"
    unfolding v_def by (rule dropWhile_idem)
  ultimately show ?thesis
    unfolding t by (simp add: trim_def)
qed












subsection \<open>Import\<close>

lemma demo_import:
  "importLoop demo_host demo_env [entry_no_image, entry_colliding] 0
     [JStr ''o_1_a''] [demo_outfit] = (None, [demo_outfit, imported_outfit])"
  by code_simp










subsection \<open>Export and import\<close>

lemma split_no_sep: "c \<notin> set x \<Longrightarrow> split c x = [x]"
  by (induction x) auto

lemma split_append_sep:
  "c \<notin> set x \<Longrightarrow> split c (x @ c # rest) = x # split c rest"
  by (induction x) auto

lemma split_join:
  assumes "\<forall>t \<in> set ts. c \<notin> set t" and "ts \<noteq> []"
  shows "split c (join [c] ts) = ts"
  using assms
proof (induction "[c]" ts rule: join.induct)
  case 1
  then show ?case by simp
next
  case (2 x)
  then show ?case by (simp add: split_no_sep)
next
  case (3 x y ys)
  then show ?case by (simp add: split_append_sep)
qed

lemma foldl_set_add_distinct:
  "distinct (acc @ xs) \<Longrightarrow> foldl set_add acc xs = acc @ xs"
  by (induction xs arbitrary: acc) (auto simp: set_add_def)

lemma from_Set_distinct: "distinct xs \<Longrightarrow> from_Set xs = xs"
  using foldl_set_add_distinct [of "[]" xs] by (simp add: from_Set_def)

lemma parseTagsText_join:
  assumes "canonical_tags ts"
  shows "parseTagsText (join '','' ts) = ts"
proof (cases "ts = []")
  case True
  then show ?thesis
    by (simp add: parseTagsText_def trim_def toLowerCase_def from_Set_def)
next
  case False
  from assms have d: "distinct ts" and l: "length ts \<le> 20"
    and e: "\<forall>t \<in> set ts. t \<noteq> [] \<and> toLowerCase t = t \<and> CHR '','' \<notin> set t \<and> trim t = t"
    by (auto simp: canonical_tags_def tags_ok_def list_all_iff)
  have s: "split (CHR '','') (join '','' ts) = ts"
    using split_join [of ts "CHR '',''"] e False by simp
  have m: "map (\<lambda>x. toLowerCase (trim x)) ts = ts"
    using e by (simp add: map_idI)
  have f: "filter (\<lambda>x. x \<noteq> []) ts = ts"
    using e by (simp add: filter_id_conv)
  show ?thesis
    unfolding parseTagsText_def s m f from_Set_distinct [OF d] using l by simp
qed

lemma split_pieces: "x \<in> set (split c s) \<Longrightarrow> c \<notin> set x"
proof (induction s arbitrary: x)
  case Nil
  then show ?case by simp
next
  case (Cons a s)
  show ?case
  proof (cases "a = c")
    case True
    then show ?thesis using Cons by auto
  next
    case False
    obtain w ws where w: "split c s = w # ws"
      by (cases "split c s") (auto split: if_splits list.splits elim: split.elims)
    then have "x = a # w \<or> x \<in> set ws" using Cons.prems False by simp
    then show ?thesis using Cons.IH w False by auto
  qed
qed

lemma isSpace_lowerChar: "isSpace (lowerChar c) = isSpace c"
  by (auto simp: lowerChar_def isSpace_def)

lemma lowerChar_comma: "lowerChar c = CHR '','' \<longleftrightarrow> c = CHR '',''"
proof -
  have "char_of (of_char c + 32 :: nat) \<noteq> CHR '',''"
    if "65 \<le> (of_char c :: nat)" and "(of_char c :: nat) \<le> 90"
  proof
    assume "char_of (of_char c + 32 :: nat) = CHR '',''"
    then have "(of_char (char_of (of_char c + 32 :: nat)) :: nat) = of_char (CHR '','')"
      by simp
    then have "(of_char c + 32 :: nat) mod 256 = 44"
      by (simp add: of_char_of)
    with that show False by simp
  qed
  then show ?thesis by (auto simp: lowerChar_def)
qed

lemma trim_toLowerCase: "trim (toLowerCase s) = toLowerCase (trim s)"
proof -
  have c: "isSpace \<circ> lowerChar = isSpace"
    by (rule ext) (simp add: isSpace_lowerChar)
  show ?thesis
    by (simp add: trim_def toLowerCase_def dropWhile_map rev_map c)
qed

lemma set_trim: "set (trim s) \<subseteq> set s"
proof -
  have "set (dropWhile isSpace (rev (dropWhile isSpace s))) \<subseteq> set (rev (dropWhile isSpace s))"
    by (rule set_dropWhileD [THEN subsetI])
  also have "\<dots> \<subseteq> set s" by (auto dest: set_dropWhileD)
  finally show ?thesis by (simp add: trim_def)
qed

lemma parseTagsText_canonical: "canonical_tags (parseTagsText s)"
proof -
  have "CHR '','' \<notin> set t \<and> trim t = t" if t: "t \<in> set (parseTagsText s)" for t
  proof -
    from t have "t \<in> set (from_Set (filter (\<lambda>x. x \<noteq> [])
        (map (\<lambda>x. toLowerCase (trim x)) (split (CHR '','') s))))"
      unfolding parseTagsText_def by (rule in_set_takeD)
    then obtain x where x: "x \<in> set (split (CHR '','') s)" and tx: "t = toLowerCase (trim x)"
      by (auto simp: set_from_Set)
    have "CHR '','' \<notin> set (trim x)"
      using split_pieces [OF x] set_trim [of x] by blast
    then have "CHR '','' \<notin> set t"
      unfolding tx toLowerCase_def set_map using lowerChar_comma by (metis imageE)
    moreover have "trim t = t"
      unfolding tx by (simp add: trim_toLowerCase trim_idem)
    ultimately show ?thesis by simp
  qed
  then show ?thesis
    using parseTagsText_ok [of s] by (simp add: canonical_tags_def list_all_iff)
qed

lemma rating_finite: "x \<in> rating_values \<Longrightarrow> isFinite x"
  by (auto simp: rating_values_def)

lemma reparse_strings:
  "map (\<lambda>x. if x = JUndefined then JNull else reparse x) (map JStr ts) = map JStr ts"
  by (induction ts) auto

lemma ToString_strings: "ToString h (JArr (map JStr ts)) = join '','' ts"
proof -
  have "map (\<lambda>x. if x = JUndefined \<or> x = JNull then [] else ToString h x) (map JStr ts) = ts"
    by (induction ts) auto
  then show ?thesis by (simp only: ToString.simps)
qed

lemma reparse_exportEntry:
  assumes "as_written r"
  shows "reparse (exportEntry r u) =
     JObj [(''id'', oid r),
           (''name'', JStr (name r)),
           (''rating'', JNum (rating r)),
           (''favorite'', JBool (favorite r)),
           (''createdAt'', JNum (createdAt r)),
           (''tags'', JArr (map JStr (tags r))),
           (''notes'', JStr (onotes r)),
           (''wearCount'', JNum (wearCount r)),
           (''lastWornAt'', JNum (lastWornAt r)),
           (''imageDataUrl'', JStr u)]"
proof -
  from assms obtain s where "oid r = JStr s"
    by (cases "oid r") (auto simp: as_written_def)
  then show ?thesis
    using assms rating_finite [of "rating r"]
    by (simp add: exportEntry_def as_written_def reparse_strings)
qed

lemma js_or_num: "isFinite x \<Longrightarrow> Number h (js_or (JNum x) (JNum (Fin 0))) = x"
  by (cases x) (auto simp: js_or_def)

lemma buildOutfit_exported:
  assumes "as_written r"
  shows "buildOutfit h now (oid r) b (reparse (exportEntry r u)) = Inr (r\<lparr>imageBlob := b\<rparr>)"
proof -
  let ?e = "reparse (exportEntry r u)"
  have p: "get_prop ?e ''name'' = JStr (name r)"
    "get_prop ?e ''rating'' = JNum (rating r)"
    "get_prop ?e ''favorite'' = JBool (favorite r)"
    "get_prop ?e ''createdAt'' = JNum (createdAt r)"
    "get_prop ?e ''tags'' = JArr (map JStr (tags r))"
    "get_prop ?e ''notes'' = JStr (onotes r)"
    "get_prop ?e ''wearCount'' = JNum (wearCount r)"
    "get_prop ?e ''lastWornAt'' = JNum (lastWornAt r)"
    unfolding reparse_exportEntry [OF assms] by simp_all
  from assms have w: "name r \<noteq> []" "trim (name r) = name r" "rating r \<in> rating_values"
    "isFinite (createdAt r)" "createdAt r \<noteq> Fin 0" "canonical_tags (tags r)"
    "trim (onotes r) = onotes r" "isFinite (wearCount r)" "isFinite (lastWornAt r)"
    by (simp_all add: as_written_def)
  have n: "safeName (JStr (name r)) = Inr (name r)"
    using w(1,2) by (simp add: safeName_def js_or_def safeNameText_def)
  have ra: "clampRating h (js_or (JNum (rating r)) (JNum (Fin 0))) = rating r"
  proof (cases "num_truthy (rating r)")
    case True
    then show ?thesis using clampRating_fixed [OF w(3)] by (simp add: js_or_def)
  next
    case False
    then have "rating r = Fin 0" using rating_finite [OF w(3)] by (cases "rating r") auto
    then show ?thesis using clampRating_fixed [of "Fin 0" h] w(3) by (simp add: js_or_def)
  qed
  have c: "Number h (js_or (JNum (createdAt r)) (JNum now)) = createdAt r"
    using w(4,5) by (cases "createdAt r") (auto simp: js_or_def)
  have t: "importedTags h (JArr (map JStr (tags r))) = Inr (tags r)"
  proof -
    have "parseTags (JStr (join '','' (tags r))) = Inr (parseTagsText (join '','' (tags r)))"
      by (simp add: parseTags_def js_or_def)
    moreover have "importedTags h (JArr (map JStr (tags r))) =
        parseTags (JStr (ToString h (JArr (map JStr (tags r)))))"
      by (simp add: importedTags_def)
    ultimately show ?thesis
      by (simp only: ToString_strings parseTagsText_join [OF w(6)])
  qed
  have nt: "trimmedText (JStr (onotes r)) = Inr (onotes r)"
    using w(7) by (auto simp: trimmedText_def js_or_def trim_def)
  show ?thesis
    unfolding buildOutfit_def p n t nt ra c js_or_num [OF w(8)] js_or_num [OF w(9)]
    by simp
qed

lemma exportEntry_defined: "exportEntry r u \<noteq> JUndefined"
  by (simp add: exportEntry_def)

lemma exportedFile_single:
  assumes "blobToDataURL env (imageBlob r) = Some u"
  shows "exportedFile env t [r] =
     Inr (JObj [(''version'', JNum (Fin 1)), (''exportedAt'', JStr t),
                (''outfits'', JArr [reparse (exportEntry r u)])])"
  using assms by (simp add: exportedFile_def exportPayload_def exportEntry_defined)

lemma importLoop_exported:
  assumes "as_written r" and "u \<noteq> []" and "dataURLToBlob env u = Some b"
  shows "importLoop h env [reparse (exportEntry r u)] 0 [] [] = (None, [r\<lparr>imageBlob := b\<rparr>])"
proof -
  let ?e = "reparse (exportEntry r u)"
  from assms(1) obtain s where s: "oid r = JStr s" "s \<noteq> []"
    by (cases "oid r") (auto simp: as_written_def)
  have p: "get_prop ?e ''imageDataUrl'' = JStr u" "get_prop ?e ''id'' = oid r" "truthy ?e"
    unfolding reparse_exportEntry [OF assms(1)] by simp_all
  have pay: "hasPayload ?e" using assms(2) by (simp add: hasPayload_def p)
  have k: "chooseId env 0 [] ?e = oid r"
    by (simp add: chooseId_def p s has_id_def)
  have put: "dbPutOutfit [] (r\<lparr>imageBlob := b\<rparr>) = Inr [r\<lparr>imageBlob := b\<rparr>]"
    by (simp add: dbPutOutfit_def has_key_def s)
  show ?thesis
    using pay assms(3) put buildOutfit_exported [OF assms(1), of h "clock env 0" b u]
    by (simp add: p k)
qed

text \<open>
  C3, as the program has it. Let \<open>r\<close> be a record in the form in which the program
  writes records: a non-empty string as id, a trimmed non-empty name, a rating among 0
  to 5, a finite creation time other than 0, tags as \<open>parseTags\<close> returns them, trimmed
  notes, finite wear count and last-worn time. Let the platform turn the payload of
  \<open>r\<close> into a non-empty data URL and that URL back into a payload of the same bytes.
  Then exporting \<open>[r]\<close> and importing the file into an empty store completes, and the
  store then holds one record, equal to \<open>r\<close> in every field, the id included, but for
  the payload, whose bytes are those of the payload of \<open>r\<close>.
\<close>

theorem export_import_roundtrip:
  assumes "as_written r"
    and "blobToDataURL env (imageBlob r) = Some u" and "u \<noteq> []"
    and "dataURLToBlob env u = Some b" and "bytes b = bytes (imageBlob r)"
    and "db st = []" and "outfits st = []"
  shows "\<exists>st' r'. importOutfitsFromFile h env now st (exportedFile env t [r]) = (None, st') \<and>
     db st' = [r'] \<and> outfits st' = [r'] \<and>
     r' = r\<lparr>imageBlob := imageBlob r'\<rparr> \<and>
     bytes (imageBlob r') = bytes (imageBlob r)"
proof -
  let ?r' = "r\<lparr>imageBlob := b\<rparr>"
  let ?st' = "refresh h now (st\<lparr>db := [?r']\<rparr>)"
  have "importOutfitsFromFile h env now st (exportedFile env t [r]) = (None, ?st')"
    unfolding exportedFile_single [OF assms(2)]
    using importLoop_exported [OF assms(1,3,4), of h]
    by (simp add: importOutfitsFromFile_def assms(6,7) from_Set_def)
  moreover have "db ?st' = [?r']" "outfits ?st' = [?r']"
    by (simp_all add: dbGetAllOutfits_def)
  moreover have "?r' = r\<lparr>imageBlob := imageBlob ?r'\<rparr>" by simp
  moreover have "bytes (imageBlob ?r') = bytes (imageBlob r)" using assms(5) by simp
  ultimately show ?thesis by blast
qed

theorem export_import_roundtrip_witness:
  "db (snd (importOutfitsFromFile demo_host demo_env (Fin 6000) empty_state
        (exportedFile demo_env ''2026-01-01T00:00:00.000Z'' [demo_outfit]))) = [demo_outfit]"
proof -
  have w: "as_written demo_outfit"
    by code_simp
  have e: "blobToDataURL demo_env (imageBlob demo_outfit) = Some ''data:image/jpeg;base64,/9g=''"
    "''data:image/jpeg;base64,/9g='' \<noteq> []"
    "dataURLToBlob demo_env ''data:image/jpeg;base64,/9g='' = Some (imageBlob demo_outfit)"
    "bytes (imageBlob demo_outfit) = bytes (imageBlob demo_outfit)"
    "db empty_state = []" "outfits empty_state = []"
    by (simp_all add: demo_env_def demo_outfit_def empty_state_def)
  from export_import_roundtrip [OF w e, of demo_host "Fin 6000" "''2026-01-01T00:00:00.000Z''"]
  obtain st' r' where
    1: "importOutfitsFromFile demo_host demo_env (Fin 6000) empty_state
          (exportedFile demo_env ''2026-01-01T00:00:00.000Z'' [demo_outfit]) = (None, st')"
    and 2: "db st' = [r']" and 3: "r' = demo_outfit\<lparr>imageBlob := imageBlob r'\<rparr>"
    and 4: "bytes (imageBlob r') = bytes (imageBlob demo_outfit)"
    by blast
  have "db (snd (importOutfitsFromFile demo_host demo_env (Fin 6000) empty_state
        (exportedFile demo_env ''2026-01-01T00:00:00.000Z'' [demo_outfit]))) = [demo_outfit]"
    by code_simp
  then show ?thesis using 1 2 by simp
qed

text \<open>
  C3 as stated fails for records outside that form. Exported and imported into an empty
  store, a record whose creation time is 0 comes back with the time of the import
  (\<^verbatim>\<open>o.createdAt || Date.now()\<close>), a record named \<open>'' Blue''\<close> comes back named
  \<open>''Blue''\<close>, and a record with the one tag \<open>''a,b''\<close> comes back with the two tags
  \<open>''a''\<close> and \<open>''b''\<close>.
\<close>

theorem export_import_counterexample:
  "db (snd (importOutfitsFromFile demo_host demo_env (Fin 6000) empty_state
        (exportedFile demo_env ''2026-01-01T00:00:00.000Z''
           [demo_outfit\<lparr>createdAt := Fin 0\<rparr>]))) = [demo_outfit\<lparr>createdAt := Fin 5000\<rparr>] \<and>
   db (snd (importOutfitsFromFile demo_host demo_env (Fin 6000) empty_state
        (exportedFile demo_env ''2026-01-01T00:00:00.000Z''
           [demo_outfit\<lparr>name := '' Blue''\<rparr>]))) = [demo_outfit\<lparr>name := ''Blue''\<rparr>] \<and>
   db (snd (importOutfitsFromFile demo_host demo_env (Fin 6000) empty_state
        (exportedFile demo_env ''2026-01-01T00:00:00.000Z''
           [demo_outfit\<lparr>tags := [''a,b'']\<rparr>]))) = [demo_outfit\<lparr>tags := [''a'', ''b'']\<rparr>]"
  by code_simp

end
